theory Spec2Isabelle
  imports Complex_Main "HOL-Library.Char_ord" "HOL-Library.List_Lexorder" "HOL-Library.Sublist"
begin

section \<open>Python values shared by the scripts\<close>

text \<open>
  Exceptions that leave a function of the repository are values of \<open>error\<close>; a function
  that can raise returns \<open>error + 'a\<close> with \<open>Inl\<close> for the exception.
\<close>

datatype error =
    AttributeError | TypeError | ValueError | KeyError | FileNotFoundError
  | NotADirectoryError | AssertionError

text \<open>
  What \<open>json.load\<close> returns. Numbers are exact rationals here: the rounding of Python
  floats (and the values NaN and Infinity) is not part of the model.
\<close>

datatype json =
    JNull | JBool bool | JNum rat | JStr string | JArr "json list" | JObj "(string \<times> json) list"

text \<open>Python truthiness, as used by \<open>if global_results.get(...)\<close>.\<close>

fun truthy :: "json \<Rightarrow> bool" where
  "truthy JNull = False"
| "truthy (JBool b) = b"
| "truthy (JNum r) = (r \<noteq> 0)"
| "truthy (JStr s) = (s \<noteq> [])"
| "truthy (JArr xs) = (xs \<noteq> [])"
| "truthy (JObj kvs) = (kvs \<noteq> [])"

text \<open>\<open>str(n)\<close> for a non-negative integer and for any integer.\<close>

definition digit_char :: "nat \<Rightarrow> char" where
  "digit_char d = char_of (48 + d)"

fun str_nat :: "nat \<Rightarrow> string" where
  "str_nat n = (if n < 10 then [digit_char n] else str_nat (n div 10) @ [digit_char (n mod 10)])"

declare str_nat.simps [simp del]

definition str_int :: "int \<Rightarrow> string" where
  "str_int i = (if i < 0 then CHR ''-'' # str_nat (nat (- i)) else str_nat (nat i))"

text \<open>
  \<open>s.replace(old, new)\<close> for a non-empty \<open>old\<close> (given as \<open>c # cs\<close>): every
  non-overlapping occurrence, scanning from the left.
\<close>

function py_replace :: "char \<Rightarrow> string \<Rightarrow> string \<Rightarrow> string \<Rightarrow> string" where
  "py_replace c cs new [] = []"
| "py_replace c cs new (x # xs) =
     (if x = c \<and> prefix cs xs then new @ py_replace c cs new (drop (length cs) xs)
      else x # py_replace c cs new xs)"
  by pat_completeness auto
termination
  by (relation "measure (\<lambda>(c, cs, new, s). length s)") auto

definition strip_Timing :: "string \<Rightarrow> string" where
  \<comment> \<open>\<open>model_dir.replace('_Timing', '')\<close>\<close>
  "strip_Timing s = py_replace CHR ''_'' ''Timing'' [] s"

definition endswith :: "string \<Rightarrow> string \<Rightarrow> bool" where
  "endswith s suf = prefix (rev suf) (rev s)"

section \<open>The results tree on disk\<close>

text \<open>
  A file is represented by what \<open>open\<close> followed by \<open>json.load\<close> does with it: the open
  fails (\<open>IOError\<close>), the text is not JSON (\<open>JSONDecodeError\<close>), or a value is loaded.
  These are the outcomes the scripts distinguish; the bytes of a file and their decoding
  are not modelled. A directory is the list of its entries.
\<close>

datatype load = IOError | JSONDecodeError | Loaded json

datatype node = File load | Dir "(string \<times> node) list"

fun child :: "node \<Rightarrow> string \<Rightarrow> node option" where
  "child (File l) name = None"
| "child (Dir es) name = map_of es name"

fun is_dir :: "node \<Rightarrow> bool" where
  "is_dir (File l) = False"
| "is_dir (Dir es) = True"

text \<open>\<open>open(path)\<close> then \<open>json.load\<close>: opening a directory is an \<open>IOError\<close>.\<close>

fun load_json :: "node \<Rightarrow> load" where
  "load_json (File l) = l"
| "load_json (Dir es) = IOError"

section \<open>aggregate\_results.py\<close>

text \<open>\<open>obj.get(key, default)\<close>: only a dict has the method.\<close>

fun py_get :: "json \<Rightarrow> string \<Rightarrow> json \<Rightarrow> error + json" where
  "py_get (JObj d) key dflt = Inr (case map_of d key of None \<Rightarrow> dflt | Some v \<Rightarrow> v)"
| "py_get other key dflt = Inl AttributeError"

text \<open>A line \<open>Warning: Could not read <path>: <exception>\<close> on standard output.\<close>

datatype warning = Could_not_read string

text \<open>
  \<open>check_replicate_status\<close>: the argument is the node at \<open>replicate_path\<close>. The result
  is the returned pair \<open>(is_valid, failure_reason)\<close> together with the warnings printed.
  Listing a path that is a file raises.
\<close>

definition check_replicate_status ::
  "node \<Rightarrow> error + ((bool \<times> string option) \<times> warning list)" where
  "check_replicate_status replicate_dir =
     (case replicate_dir of
        File l \<Rightarrow> Inl NotADirectoryError
      | Dir es \<Rightarrow>
          if es = [] then Inr ((False, Some ''memory-limit''), [])
          else
            (case child replicate_dir ''global_accuracy_results.json'' of
               None \<Rightarrow> Inr ((False, Some ''memory-limit''), [])
             | Some global_results_path \<Rightarrow>
                 (case load_json global_results_path of
                    Loaded global_results \<Rightarrow>
                      (case py_get global_results ''time_exceeded'' (JBool False) of
                         Inl e \<Rightarrow> Inl e
                       | Inr flag \<Rightarrow>
                           if truthy flag then Inr ((False, Some ''time-limit''), [])
                           else
                             (case child replicate_dir ''best_model_results.json'' of
                                None \<Rightarrow> Inr ((False, Some ''memory-limit''), [])
                              | Some best_model_path \<Rightarrow> Inr ((True, None), [])))
                  | unreadable \<Rightarrow>
                      Inr ((False, Some ''memory-limit''),
                           [Could_not_read ''global_accuracy_results.json'']))))"

text \<open>
  \<open>get_test_accuracy\<close>: Python's \<open>None\<close> is \<open>JNull\<close>; a missing file makes \<open>open\<close>
  raise an \<open>IOError\<close>, which is caught like the others.
\<close>

definition get_test_accuracy :: "node \<Rightarrow> error + (json \<times> warning list)" where
  "get_test_accuracy replicate_dir =
     (case child replicate_dir ''best_model_results.json'' of
        None \<Rightarrow> Inr (JNull, [Could_not_read ''best_model_results.json''])
      | Some best_model_path \<Rightarrow>
          (case load_json best_model_path of
             Loaded best_model_results \<Rightarrow>
               (case py_get best_model_results ''test_accuracy'' JNull of
                  Inl e \<Rightarrow> Inl e
                | Inr v \<Rightarrow> Inr (v, []))
           | unreadable \<Rightarrow> Inr (JNull, [Could_not_read ''best_model_results.json''])))"

text \<open>
  \<open>sum(test_accuracies)\<close>: numbers and booleans add up (a bool is an int in Python),
  anything else is a \<open>TypeError\<close>.
\<close>

fun py_num :: "json \<Rightarrow> rat option" where
  "py_num (JNum r) = Some r"
| "py_num (JBool b) = Some (if b then 1 else 0)"
| "py_num other = None"

fun py_sum :: "rat \<Rightarrow> json list \<Rightarrow> error + rat" where
  "py_sum acc [] = Inr acc"
| "py_sum acc (x # xs) =
     (case py_num x of None \<Rightarrow> Inl TypeError | Some r \<Rightarrow> py_sum (acc + r) xs)"

text \<open>
  The body of the replicate loop of \<open>process_task_model\<close>, on the state
  \<open>(test_accuracies, failure_reasons, warnings printed)\<close>.
\<close>

type_synonym replicate_state = "json list \<times> string option set \<times> warning list"

definition replicate_step :: "node \<Rightarrow> nat \<Rightarrow> replicate_state \<Rightarrow> error + replicate_state" where
  "replicate_step task_path i st =
     (case st of (test_accuracies, failure_reasons, ws) \<Rightarrow>
       (case child task_path (''Replicate_'' @ str_nat i) of
          None \<Rightarrow> Inr (test_accuracies, insert (Some ''memory-limit'') failure_reasons, ws)
        | Some replicate_path \<Rightarrow>
            (case check_replicate_status replicate_path of
               Inl e \<Rightarrow> Inl e
             | Inr ((is_valid, failure_reason), ws1) \<Rightarrow>
                 if \<not> is_valid
                 then Inr (test_accuracies, insert failure_reason failure_reasons, ws @ ws1)
                 else
                   (case get_test_accuracy replicate_path of
                      Inl e \<Rightarrow> Inl e
                    | Inr (test_accuracy, ws2) \<Rightarrow>
                        if test_accuracy \<noteq> JNull
                        then Inr (test_accuracies @ [test_accuracy], failure_reasons,
                                  ws @ ws1 @ ws2)
                        else Inr (test_accuracies, failure_reasons, ws @ ws1 @ ws2)))))"

fun replicate_loop :: "node \<Rightarrow> nat list \<Rightarrow> replicate_state \<Rightarrow> error + replicate_state" where
  "replicate_loop task_path [] st = Inr st"
| "replicate_loop task_path (i # is) st =
     (case replicate_step task_path i st of
        Inl e \<Rightarrow> Inl e
      | Inr st' \<Rightarrow> replicate_loop task_path is st')"

text \<open>\<open>Path(timing_results_dir) / model_name / f'task_{task_id}'\<close>, if it exists.\<close>

definition task_path_of :: "node option \<Rightarrow> string \<Rightarrow> string \<Rightarrow> node option" where
  "task_path_of timing_results_dir model_name task_id =
     (case timing_results_dir of
        None \<Rightarrow> None
      | Some troot \<Rightarrow>
          (case child troot model_name of
             None \<Rightarrow> None
           | Some model_path \<Rightarrow> child model_path (''task_'' @ task_id)))"

definition process_task_model ::
  "node option \<Rightarrow> string \<Rightarrow> string \<Rightarrow> nat \<Rightarrow> error + ((rat option \<times> string) \<times> warning list)" where
  "process_task_model timing_results_dir model_name task_id num_replicates =
     (case task_path_of timing_results_dir model_name task_id of
        None \<Rightarrow> Inr ((None, ''None''), [])
      | Some task_path \<Rightarrow>
          (case replicate_loop task_path [0 ..< num_replicates] ([], {}, []) of
             Inl e \<Rightarrow> Inl e
           | Inr (test_accuracies, failure_reasons, ws) \<Rightarrow>
               (let overall_failure =
                      (if Some ''memory-limit'' \<in> failure_reasons then ''memory-limit''
                       else if Some ''time-limit'' \<in> failure_reasons then ''time-limit''
                       else ''None'')
                in if test_accuracies \<noteq> []
                   then (case py_sum 0 test_accuracies of
                           Inl e \<Rightarrow> Inl e
                         | Inr s \<Rightarrow>
                             Inr ((Some (s / of_nat (length test_accuracies)),
                                   overall_failure), ws))
                   else Inr ((None, overall_failure), ws))))"

text \<open>
  The task table (a pandas DataFrame): the column labels in order, and the rows, each
  with its index label. A row gives the cell of every column; only the cells of listed
  columns belong to the table.
\<close>

datatype cell = CNone | CFloat rat | CInt int | CStr string

record frame =
  columns :: "string list"
  rows :: "(nat \<times> (string \<Rightarrow> cell)) list"

definition set_column :: "string \<Rightarrow> cell \<Rightarrow> frame \<Rightarrow> frame" where
  \<comment> \<open>\<open>df[name] = v\<close>: a new label is appended, an existing one keeps its place\<close>
  "set_column name v df =
     \<lparr>columns = (if name \<in> set (columns df) then columns df else columns df @ [name]),
      rows = map (\<lambda>(idx, row). (idx, row(name := v))) (rows df)\<rparr>"

definition drop_column :: "string \<Rightarrow> frame \<Rightarrow> frame" where
  \<comment> \<open>\<open>df.drop(columns=[name])\<close>\<close>
  "drop_column name df = df\<lparr>columns := removeAll name (columns df)\<rparr>"

text \<open>The sorted names of the sub-directories of the results root that end in \<open>_Timing\<close>.\<close>

definition discover_models :: "node option \<Rightarrow> error + string list" where
  "discover_models timing_results_dir =
     (case timing_results_dir of
        None \<Rightarrow> Inl FileNotFoundError
      | Some (File l) \<Rightarrow> Inl NotADirectoryError
      | Some (Dir es) \<Rightarrow>
          Inr (sort (map fst (filter (\<lambda>(name, d). is_dir d \<and> endswith name ''_Timing'') es))))"

definition cell_of :: "rat option \<Rightarrow> cell" where
  "cell_of avg_accuracy = (case avg_accuracy of None \<Rightarrow> CNone | Some a \<Rightarrow> CFloat a)"

text \<open>
  The loop over the models for one task row, on the state \<open>(row, task_failures)\<close>; every
  call uses the default of ten replicates.
\<close>

fun model_loop ::
  "node option \<Rightarrow> string \<Rightarrow> string list \<Rightarrow> (string \<Rightarrow> cell) \<times> string set
     \<Rightarrow> error + ((string \<Rightarrow> cell) \<times> string set)" where
  "model_loop timing_results_dir task_id [] st = Inr st"
| "model_loop timing_results_dir task_id (model_dir # rest) st =
     (case st of (row, task_failures) \<Rightarrow>
       (case process_task_model timing_results_dir model_dir task_id 10 of
          Inl e \<Rightarrow> Inl e
        | Inr ((avg_accuracy, failure), ws) \<Rightarrow>
            model_loop timing_results_dir task_id rest
              (row(strip_Timing model_dir := cell_of avg_accuracy),
               if failure \<noteq> ''None'' then insert failure task_failures else task_failures)))"

text \<open>
  One iteration of the loop over the rows. \<open>str\<close> is Python's \<open>str\<close> on the value of a
  cell; reading \<open>row['task_id']\<close> needs the column.
\<close>

definition process_row ::
  "(cell \<Rightarrow> string) \<Rightarrow> node option \<Rightarrow> string list \<Rightarrow> string list
     \<Rightarrow> nat \<times> (string \<Rightarrow> cell) \<Rightarrow> error + (nat \<times> (string \<Rightarrow> cell))" where
  "process_row str timing_results_dir cols model_dirs ir =
     (case ir of (idx, row) \<Rightarrow>
       if ''task_id'' \<notin> set cols then Inl KeyError
       else
         (case model_loop timing_results_dir (str (row ''task_id'')) model_dirs (row, {}) of
            Inl e \<Rightarrow> Inl e
          | Inr (row', task_failures) \<Rightarrow>
              Inr (idx,
                   row'(''Failure'' :=
                     CStr (if ''memory-limit'' \<in> task_failures then ''memory-limit''
                           else if ''time-limit'' \<in> task_failures then ''time-limit''
                           else ''None'')))))"

fun process_rows ::
  "(cell \<Rightarrow> string) \<Rightarrow> node option \<Rightarrow> string list \<Rightarrow> string list
     \<Rightarrow> (nat \<times> (string \<Rightarrow> cell)) list \<Rightarrow> error + (nat \<times> (string \<Rightarrow> cell)) list" where
  "process_rows str timing_results_dir cols model_dirs [] = Inr []"
| "process_rows str timing_results_dir cols model_dirs (ir # irs) =
     (case process_row str timing_results_dir cols model_dirs ir of
        Inl e \<Rightarrow> Inl e
      | Inr ir' \<Rightarrow>
          (case process_rows str timing_results_dir cols model_dirs irs of
             Inl e \<Rightarrow> Inl e
           | Inr irs' \<Rightarrow> Inr (ir' # irs')))"

text \<open>
  The inner loop of the threshold filter: the first model whose cell is not \<open>None\<close> and
  at least the threshold ends it; comparing a string with a number raises.
\<close>

fun exceeds_threshold :: "rat \<Rightarrow> (string \<Rightarrow> cell) \<Rightarrow> string list \<Rightarrow> error + bool" where
  "exceeds_threshold threshold row [] = Inr False"
| "exceeds_threshold threshold row (model_dir # rest) =
     (case row (strip_Timing model_dir) of
        CNone \<Rightarrow> exceeds_threshold threshold row rest
      | CFloat a \<Rightarrow>
          if a \<ge> threshold then Inr True else exceeds_threshold threshold row rest
      | CInt i \<Rightarrow>
          if of_int i \<ge> threshold then Inr True else exceeds_threshold threshold row rest
      | CStr s \<Rightarrow> Inl TypeError)"

fun tasks_to_keep ::
  "rat \<Rightarrow> string list \<Rightarrow> (nat \<times> (string \<Rightarrow> cell)) list
     \<Rightarrow> error + (nat \<times> (string \<Rightarrow> cell)) list" where
  "tasks_to_keep threshold model_dirs [] = Inr []"
| "tasks_to_keep threshold model_dirs (ir # irs) =
     (case exceeds_threshold threshold (snd ir) model_dirs of
        Inl e \<Rightarrow> Inl e
      | Inr exceeds \<Rightarrow>
          (case tasks_to_keep threshold model_dirs irs of
             Inl e \<Rightarrow> Inl e
           | Inr kept \<Rightarrow> Inr (if \<not> exceeds then ir # kept else kept)))"

text \<open>
  The report of the kept rows: only what can raise is modelled. A cell that is not
  \<open>None\<close> is formatted with \<open>:.6f\<close>, which a string does not accept.
\<close>

fun report_row :: "(string \<Rightarrow> cell) \<Rightarrow> string list \<Rightarrow> error + unit" where
  "report_row row [] = Inr ()"
| "report_row row (model_dir # rest) =
     (case row (strip_Timing model_dir) of
        CStr s \<Rightarrow> Inl ValueError
      | other \<Rightarrow> report_row row rest)"

fun report :: "string list \<Rightarrow> (nat \<times> (string \<Rightarrow> cell)) list \<Rightarrow> error + unit" where
  "report model_dirs [] = Inr ()"
| "report model_dirs (ir # irs) =
     (case report_row (snd ir) model_dirs of
        Inl e \<Rightarrow> Inl e
      | Inr u \<Rightarrow> report model_dirs irs)"

text \<open>
  \<open>aggregate_results\<close>: \<open>df\<close> is the table read from \<open>tasks_summary_path\<close>, the result
  is the table handed to \<open>to_csv\<close>. The stages are named after the variables of the source.
\<close>

definition init_columns :: "string list \<Rightarrow> frame \<Rightarrow> frame" where
  "init_columns model_dirs df =
     set_column ''Failure'' (CStr ''None'')
       (fold (\<lambda>model_dir. set_column (strip_Timing model_dir) CNone) model_dirs df)"

definition processed ::
  "(cell \<Rightarrow> string) \<Rightarrow> node option \<Rightarrow> string list \<Rightarrow> frame \<Rightarrow> error + frame" where
  "processed str timing_results_dir model_dirs df =
     (let df0 = init_columns model_dirs df in
      case process_rows str timing_results_dir (columns df0) model_dirs (rows df0) of
        Inl e \<Rightarrow> Inl e
      | Inr irs \<Rightarrow> Inr (df0\<lparr>rows := irs\<rparr>))"

definition failure_filter :: "frame \<Rightarrow> frame" where
  \<comment> \<open>\<open>df[df['Failure'] == 'None']\<close>\<close>
  "failure_filter df = df\<lparr>rows := filter (\<lambda>(idx, row). row ''Failure'' = CStr ''None'') (rows df)\<rparr>"

definition threshold_filter :: "rat option \<Rightarrow> string list \<Rightarrow> frame \<Rightarrow> error + frame" where
  "threshold_filter threshold model_dirs df_filtered =
     (case threshold of
        None \<Rightarrow> Inr df_filtered
      | Some t \<Rightarrow>
          (case tasks_to_keep t model_dirs (rows df_filtered) of
             Inl e \<Rightarrow> Inl e
           | Inr kept \<Rightarrow> Inr (df_filtered\<lparr>rows := kept\<rparr>)))"

definition aggregate_results ::
  "(cell \<Rightarrow> string) \<Rightarrow> frame \<Rightarrow> node option \<Rightarrow> rat option \<Rightarrow> error + frame" where
  "aggregate_results str df timing_results_dir threshold =
     (case discover_models timing_results_dir of
        Inl e \<Rightarrow> Inl e
      | Inr model_dirs \<Rightarrow>
          (case processed str timing_results_dir model_dirs df of
             Inl e \<Rightarrow> Inl e
           | Inr df' \<Rightarrow>
               (case threshold_filter threshold model_dirs (failure_filter df') of
                  Inl e \<Rightarrow> Inl e
                | Inr df_filtered \<Rightarrow>
                    (case report model_dirs (rows df_filtered) of
                       Inl e \<Rightarrow> Inl e
                     | Inr u \<Rightarrow> Inr (drop_column ''Failure'' df_filtered)))))"

section \<open>job\_checker.py\<close>

definition TASK_IDS :: "int list" where
  "TASK_IDS =
    [190412, 146818, 359955, 168757, 359956, 359958, 359962, 190137, 168911, 190392,
     189922, 359965, 359966, 359967, 190411, 146820, 359968, 359975, 359972, 168350,
     359973, 190410, 359971, 359988, 359989, 359979, 359980, 359992, 359982, 167120,
     359990, 189354, 360114, 359994]"

definition NUM_REPLICATES :: int where
  "NUM_REPLICATES = 10"

definition MODEL_FOLDERS :: "string list" where
  "MODEL_FOLDERS =
    [''DT_Timing'', ''ET_Timing'', ''GB_Timing'', ''KSVC_Timing'', ''LSGD_Timing'',
     ''LSVC_Timing'', ''RF_Timing'']"

text \<open>The argument is the node at \<open>folder_path\<close>, \<open>None\<close> when the path does not exist.\<close>

fun is_folder_empty :: "node option \<Rightarrow> bool" where
  "is_folder_empty None = True"
| "is_folder_empty (Some (File l)) = True"
| "is_folder_empty (Some (Dir es)) = (length es = 0)"

definition calculate_array_id :: "int \<Rightarrow> int \<Rightarrow> int" where
  "calculate_array_id task_index replicate_no = task_index * NUM_REPLICATES + replicate_no"

text \<open>
  One printed row of the audit: model name, task id, replicate, array id. The rows of one
  task follow the two branches of the loop body: a missing task folder flags every
  replicate, an existing one flags the replicates whose folder is empty.
\<close>

type_synonym audit_row = "string \<times> int \<times> int \<times> int"

definition replicate_range :: "int list" where
  \<comment> \<open>\<open>range(NUM_REPLICATES)\<close>\<close>
  "replicate_range = map int [0 ..< nat NUM_REPLICATES]"

definition task_rows :: "node \<Rightarrow> string \<Rightarrow> nat \<times> int \<Rightarrow> audit_row list" where
  "task_rows model_path model_name it =
     (case it of (task_index, task_id) \<Rightarrow>
       (case child model_path (''task_'' @ str_int task_id) of
          None \<Rightarrow>
            map (\<lambda>rep. (model_name, task_id, rep, calculate_array_id (int task_index) rep))
              replicate_range
        | Some task_path \<Rightarrow>
            map (\<lambda>rep. (model_name, task_id, rep, calculate_array_id (int task_index) rep))
              (filter (\<lambda>rep. is_folder_empty (child task_path (''Replicate_'' @ str_int rep)))
                 replicate_range)))"

definition model_rows :: "node \<Rightarrow> string \<Rightarrow> audit_row list" where
  "model_rows troot model_folder =
     (case child troot model_folder of
        None \<Rightarrow> []
      | Some model_path \<Rightarrow>
          concat (map (task_rows model_path (strip_Timing model_folder))
                    (enumerate 0 TASK_IDS)))"

text \<open>
  The audit returns nothing when the results directory does not exist; otherwise the rows
  printed during the scan and, for every model, the sorted array ids recorded for it.
\<close>

definition check_timing_results ::
  "node option \<Rightarrow> (audit_row list \<times> (string \<times> int list) list) option" where
  "check_timing_results timing_results =
     (case timing_results of
        None \<Rightarrow> None
      | Some troot \<Rightarrow>
          Some (concat (map (model_rows troot) MODEL_FOLDERS),
                map (\<lambda>mf. (strip_Timing mf,
                            sort (map (\<lambda>(m, t, r, a). a) (model_rows troot mf))))
                  MODEL_FOLDERS))"

section \<open>individual.py\<close>

text \<open>
  Parameter mappings are mutable objects that callers can share, so they live in a store:
  a list of dicts, an address being a position in it. The values of a dict (\<open>Any\<close>) are
  held in the dict itself, nested containers included. An \<open>Individual\<close> refers to its
  mapping by address; its unset scores are \<open>None\<close>.
\<close>

type_synonym 'v pydict = "string \<Rightarrow> 'v option"
type_synonym 'v store = "'v pydict list"

record individual =
  train_performance :: "rat option"
  val_performance :: "rat option"
  ei :: "rat option"
  params :: nat
  model_type :: string

definition Individual :: "nat \<Rightarrow> string \<Rightarrow> individual" where
  \<comment> \<open>\<open>__init__\<close>: the mapping is stored as passed, not copied\<close>
  "Individual ps mt =
     \<lparr>train_performance = None, val_performance = None, ei = None, params = ps, model_type = mt\<rparr>"

definition set_train_performance :: "individual \<Rightarrow> rat \<Rightarrow> error + individual" where
  "set_train_performance self f =
     (if train_performance self = None then Inr (self\<lparr>train_performance := Some f\<rparr>)
      else Inl AssertionError)"

definition get_train_performance :: "individual \<Rightarrow> error + rat" where
  "get_train_performance self =
     (case train_performance self of None \<Rightarrow> Inl AssertionError | Some f \<Rightarrow> Inr f)"

definition set_val_performance :: "individual \<Rightarrow> rat \<Rightarrow> error + individual" where
  "set_val_performance self f =
     (if val_performance self = None then Inr (self\<lparr>val_performance := Some f\<rparr>)
      else Inl AssertionError)"

definition get_val_performance :: "individual \<Rightarrow> error + rat" where
  "get_val_performance self =
     (case val_performance self of None \<Rightarrow> Inl AssertionError | Some f \<Rightarrow> Inr f)"

definition set_ei :: "individual \<Rightarrow> rat \<Rightarrow> error + individual" where
  "set_ei self x =
     (if ei self = None then Inr (self\<lparr>ei := Some x\<rparr>) else Inl AssertionError)"

definition get_ei :: "individual \<Rightarrow> error + rat" where
  "get_ei self = (case ei self of None \<Rightarrow> Inl AssertionError | Some x \<Rightarrow> Inr x)"

text \<open>
  \<open>copy.deepcopy\<close> of the dict at an address: a new object with the same items, at the
  next free address. It returns the new store and the address of the copy.
\<close>

definition deepcopy :: "'v store \<Rightarrow> nat \<Rightarrow> 'v store \<times> nat" where
  "deepcopy st a = (st @ [st ! a], length st)"

definition get_params :: "'v store \<Rightarrow> individual \<Rightarrow> 'v store \<times> nat" where
  "get_params st self = deepcopy st (params self)"

text \<open>
  A caller's history of setter calls on one \<open>Individual\<close>; an assertion error ends it.
\<close>

datatype call = Set_train rat | Set_val rat | Set_ei rat

fun do_call :: "individual \<Rightarrow> call \<Rightarrow> error + individual" where
  "do_call self (Set_train f) = set_train_performance self f"
| "do_call self (Set_val f) = set_val_performance self f"
| "do_call self (Set_ei x) = set_ei self x"

fun run :: "individual \<Rightarrow> call list \<Rightarrow> error + individual" where
  "run self [] = Inr self"
| "run self (c # cs) = (case do_call self c of Inl e \<Rightarrow> Inl e | Inr self' \<Rightarrow> run self' cs)"

section \<open>The vocabulary of the specification\<close>

text \<open>
  The definitions of this section follow the words of the specification, not the code:
  the replicates of a task, the ones the Resolver classifies valid, the accuracies they
  contribute, the arithmetic mean, the failure reason a replicate contributes, and the
  failure classifications of the models of one task. The properties below compare the
  code with them.
\<close>

definition spec_replicate :: "node \<Rightarrow> nat \<Rightarrow> node option" where
  "spec_replicate task_path i = child task_path (''Replicate_'' @ str_nat i)"

definition spec_valid :: "node \<Rightarrow> bool" where
  "spec_valid r =
     (case check_replicate_status r of Inr ((is_valid, reason), ws) \<Rightarrow> is_valid | Inl e \<Rightarrow> False)"

definition spec_accuracy :: "node \<Rightarrow> json option" where
  "spec_accuracy r =
     (if spec_valid r
      then (case get_test_accuracy r of
              Inr (v, ws) \<Rightarrow> if v = JNull then None else Some v
            | Inl e \<Rightarrow> None)
      else None)"




definition spec_reason :: "node option \<Rightarrow> string option" where
  "spec_reason r =
     (case r of
        None \<Rightarrow> Some ''memory-limit''
      | Some d \<Rightarrow>
          (case check_replicate_status d of
             Inr ((is_valid, reason), ws) \<Rightarrow> if is_valid then None else reason
           | Inl e \<Rightarrow> None))"

definition spec_reasons :: "node \<Rightarrow> nat \<Rightarrow> string set" where
  "spec_reasons task_path n =
     set (List.map_filter (\<lambda>i. spec_reason (spec_replicate task_path i)) [0 ..< n])"

definition spec_model_failures :: "node option \<Rightarrow> string \<Rightarrow> string list \<Rightarrow> string set" where
  "spec_model_failures timing_results_dir task_id model_dirs =
     set (List.map_filter
            (\<lambda>model_dir. case process_task_model timing_results_dir model_dir task_id 10 of
                            Inr ((avg, failure), ws) \<Rightarrow> Some failure
                          | Inl e \<Rightarrow> None)
            model_dirs)"





section \<open>Example inputs\<close>

text \<open>
  A results tree with one model: tasks 1 and 2 have ten complete replicates each (test
  accuracies 0.8 and 0.6), task 3 is the scenario of the specification (replicate 0
  complete with accuracy 0.8, replicate 1 an empty directory), task 4 has one empty
  replicate. The task table lists tasks 1 and 2; the second table is what a first run on it
  writes back. The task ids of the tables are integers, and \<open>example_str\<close> is \<open>str\<close> on
  the cells that hold an integer, a string or \<open>None\<close>.
\<close>

definition example_replicate :: "rat \<Rightarrow> node" where
  "example_replicate a =
     Dir [(''global_accuracy_results.json'',
           File (Loaded (JObj [(''time_exceeded'', JBool False)]))),
          (''best_model_results.json'',
           File (Loaded (JObj [(''test_accuracy'', JNum a)])))]"

definition example_task :: "rat \<Rightarrow> node" where
  "example_task a =
     Dir (map (\<lambda>i. (''Replicate_'' @ str_nat i, example_replicate a)) [0 ..< 10])"

definition example_task_3 :: node where
  "example_task_3 = Dir [(''Replicate_0'', example_replicate (4 / 5)), (''Replicate_1'', Dir [])]"

definition example_task_4 :: node where
  "example_task_4 = Dir [(''Replicate_0'', Dir [])]"

definition example_results :: node where
  "example_results =
     Dir [(''DT_Timing'',
           Dir [(''task_1'', example_task (4 / 5)), (''task_2'', example_task (3 / 5)),
                (''task_3'', example_task_3), (''task_4'', example_task_4)]),
          (''notes.txt'', File IOError)]"

fun example_str :: "cell \<Rightarrow> string" where
  "example_str (CInt i) = str_int i"
| "example_str (CStr s) = s"
| "example_str other = ''None''"

definition example_row :: "int \<Rightarrow> string \<Rightarrow> cell" where
  "example_row task = (\<lambda>c. CNone)(''task_id'' := CInt task)"

definition example_table :: frame where
  "example_table =
     \<lparr>columns = [''task_id''], rows = [(0, example_row 1), (1, example_row 2)]\<rparr>"

definition example_table_rerun :: frame where
  "example_table_rerun =
     \<lparr>columns = [''task_id'', ''DT''],
      rows = [(0, (example_row 1)(''DT'' := CFloat (4 / 5))),
              (1, (example_row 2)(''DT'' := CFloat (3 / 5)))]\<rparr>"

section \<open>Properties of the job auditor\<close>

lemma task_rows_array_id:
  assumes "(m, tid, r, a) \<in> set (task_rows mp mn (t, tid'))"
  shows "tid = tid' \<and> a = int t * 10 + r \<and> 0 \<le> r \<and> r < 10"
  using assms
  by (auto simp: task_rows_def calculate_array_id_def NUM_REPLICATES_def replicate_range_def
      split: option.splits)

lemma model_rows_array_id:
  assumes "(m, tid, r, a) \<in> set (model_rows troot mf)"
  shows "\<exists>t < length TASK_IDS. TASK_IDS ! t = tid \<and> a = int t * 10 + r \<and> 0 \<le> r \<and> r < 10"
proof -
  from assms obtain mp it where it: "it \<in> set (enumerate 0 TASK_IDS)"
    and row: "(m, tid, r, a) \<in> set (task_rows mp (strip_Timing mf) it)"
    by (auto simp: model_rows_def split: option.splits)
  obtain t tid' where [simp]: "it = (t, tid')" by (cases it)
  from it have t: "t < length TASK_IDS" "TASK_IDS ! t = tid'"
    by (auto simp: in_set_enumerate_eq)
  from row have "tid = tid' \<and> a = int t * 10 + r \<and> 0 \<le> r \<and> r < 10"
    using task_rows_array_id by simp
  with t show ?thesis by blast
qed

text \<open>
  C8. The array id is \<open>task_index * 10 + replicate\<close>; every row the auditor prints carries
  the array id computed from the position of its task in \<open>TASK_IDS\<close> (not from the task
  identifier) and its replicate index; the task ids of the list are pairwise distinct, so
  the position is determined; task 146818 sits at index 1, so with replicate 3 the id
  is 13.
\<close>

theorem array_id_formula:
  "calculate_array_id t r = t * 10 + r
   \<and> (\<forall>rows ids. check_timing_results (Some troot) = Some (rows, ids) \<longrightarrow>
        (\<forall>(m, tid, rep, a) \<in> set rows.
           \<exists>i < length TASK_IDS. TASK_IDS ! i = tid \<and> a = int i * 10 + rep
             \<and> a = calculate_array_id (int i) rep))
   \<and> distinct TASK_IDS
   \<and> TASK_IDS ! 1 = 146818
   \<and> calculate_array_id 1 3 = 13"
proof -
  have "calculate_array_id t r = t * 10 + r"
    by (simp add: calculate_array_id_def NUM_REPLICATES_def)
  moreover have "\<exists>i < length TASK_IDS. TASK_IDS ! i = tid \<and> a = int i * 10 + rep
        \<and> a = calculate_array_id (int i) rep"
    if "check_timing_results (Some troot) = Some (rows, ids)" "(m, tid, rep, a) \<in> set rows"
    for rows ids m tid rep a
  proof -
    from that obtain mf where "(m, tid, rep, a) \<in> set (model_rows troot mf)"
      by (auto simp: check_timing_results_def)
    then show ?thesis
      using model_rows_array_id
      by (fastforce simp: calculate_array_id_def NUM_REPLICATES_def)
  qed
  moreover have "distinct TASK_IDS"
    by (simp add: TASK_IDS_def)
  moreover have "TASK_IDS ! 1 = 146818"
    by (simp add: TASK_IDS_def)
  moreover have "calculate_array_id 1 3 = 13"
    by (simp add: calculate_array_id_def NUM_REPLICATES_def)
  ultimately show ?thesis by blast
qed

theorem array_id_formula_witness:
  "(\<exists>rows ids. check_timing_results (Some (Dir [(''DT_Timing'', Dir [])])) = Some (rows, ids)
      \<and> (''DT'', 146818, 3, 13) \<in> set rows)
   \<and> (\<exists>i < length TASK_IDS. TASK_IDS ! i = 146818 \<and> (13::int) = int i * 10 + 3)"
proof -
  let ?R = "Dir [(''DT_Timing'', Dir [])]"
  have mem: "(''DT'', 146818, 3, 13) \<in> set (fst (the (check_timing_results (Some ?R))))"
    by code_simp
  obtain rows ids where r: "check_timing_results (Some ?R) = Some (rows, ids)"
    by (simp add: check_timing_results_def)
  with mem have "(''DT'', 146818, 3, 13) \<in> set rows" by simp
  with r array_id_formula [of 1 3 ?R] show ?thesis by fastforce
qed

section \<open>Properties of the Resolver\<close>

lemma status_Dir_cases:
  "check_replicate_status (Dir es) =
     (if es = [] then Inr ((False, Some ''memory-limit''), [])
      else case map_of es ''global_accuracy_results.json'' of
             None \<Rightarrow> Inr ((False, Some ''memory-limit''), [])
           | Some p \<Rightarrow>
               (case load_json p of
                  Loaded j \<Rightarrow>
                    (case py_get j ''time_exceeded'' (JBool False) of
                       Inl e \<Rightarrow> Inl e
                     | Inr flag \<Rightarrow>
                         if truthy flag then Inr ((False, Some ''time-limit''), [])
                         else if map_of es ''best_model_results.json'' = None
                              then Inr ((False, Some ''memory-limit''), [])
                              else Inr ((True, None), []))
                | unreadable \<Rightarrow>
                    Inr ((False, Some ''memory-limit''),
                         [Could_not_read ''global_accuracy_results.json''])))"
  by (simp add: check_replicate_status_def split: option.splits load.splits sum.splits)

text \<open>
  C2. A replicate directory with no entries is invalid with reason memory-limit; so is
  one without the primary artifact \<open>global_accuracy_results.json\<close>, and one whose primary
  artifact loads as an object with a time-budget flag that is not true while the secondary
  artifact \<open>best_model_results.json\<close> is missing. The Resolver returns valid with no reason
  (and no warning) exactly when the directory is not empty, the primary artifact is
  present and loads, its flag is not true, and the secondary artifact is present.
\<close>

theorem resolver_memory_limit_or_valid:
  "check_replicate_status (Dir []) = Inr ((False, Some ''memory-limit''), [])
   \<and> (map_of es ''global_accuracy_results.json'' = None \<longrightarrow>
        check_replicate_status (Dir es) = Inr ((False, Some ''memory-limit''), []))
   \<and> (map_of es ''global_accuracy_results.json'' = Some p
        \<and> load_json p = Loaded (JObj d)
        \<and> \<not> truthy (case map_of d ''time_exceeded'' of None \<Rightarrow> JBool False | Some v \<Rightarrow> v)
        \<and> map_of es ''best_model_results.json'' = None \<longrightarrow>
        check_replicate_status (Dir es) = Inr ((False, Some ''memory-limit''), []))
   \<and> (check_replicate_status (Dir es) = Inr ((True, None), ws) \<longleftrightarrow>
        ws = [] \<and> es \<noteq> []
        \<and> (\<exists>p j flag. map_of es ''global_accuracy_results.json'' = Some p
              \<and> load_json p = Loaded j
              \<and> py_get j ''time_exceeded'' (JBool False) = Inr flag \<and> \<not> truthy flag)
        \<and> map_of es ''best_model_results.json'' \<noteq> None)"
  by (auto simp: status_Dir_cases split: option.splits load.splits sum.splits)

theorem resolver_memory_limit_or_valid_witness:
  "check_replicate_status (Dir [(''slurm.out'', File IOError)])
     = Inr ((False, Some ''memory-limit''), [])
   \<and> check_replicate_status
       (Dir [(''global_accuracy_results.json'',
              File (Loaded (JObj [(''time_exceeded'', JBool False)])))])
     = Inr ((False, Some ''memory-limit''), [])
   \<and> check_replicate_status
       (Dir [(''global_accuracy_results.json'',
              File (Loaded (JObj [(''time_exceeded'', JBool False)]))),
             (''best_model_results.json'',
              File (Loaded (JObj [(''test_accuracy'', JNum (4 / 5))])))])
     = Inr ((True, None), [])"
proof -
  let ?g = "File (Loaded (JObj [(''time_exceeded'', JBool False)]))"
  let ?b = "File (Loaded (JObj [(''test_accuracy'', JNum (4 / 5))]))"
  have 1: "check_replicate_status (Dir [(''slurm.out'', File IOError)])
      = Inr ((False, Some ''memory-limit''), [])"
    using resolver_memory_limit_or_valid [where es = "[(''slurm.out'', File IOError)]"]
    by simp
  have 2: "check_replicate_status (Dir [(''global_accuracy_results.json'', ?g)])
      = Inr ((False, Some ''memory-limit''), [])"
    using resolver_memory_limit_or_valid
      [where es = "[(''global_accuracy_results.json'', ?g)]" and p = ?g
         and d = "[(''time_exceeded'', JBool False)]"]
    by simp
  have 3: "check_replicate_status
      (Dir [(''global_accuracy_results.json'', ?g), (''best_model_results.json'', ?b)])
      = Inr ((True, None), [])"
    using resolver_memory_limit_or_valid
      [where es = "[(''global_accuracy_results.json'', ?g), (''best_model_results.json'', ?b)]"
         and ws = "[]"]
    by simp
  from 1 2 3 show ?thesis by simp
qed





section \<open>Properties of the aggregator for one task and model\<close>

subsection \<open>What the replicate loop accumulates\<close>

lemma replicate_step_spec:
  assumes "replicate_step tp i (accs, F, ws) = Inr (accs', F', ws')"
  shows "accs' = accs @ (case Option.bind (spec_replicate tp i) spec_accuracy of
                           None \<Rightarrow> [] | Some a \<Rightarrow> [a])"
    and "{s. Some s \<in> F'} = {s. Some s \<in> F} \<union> (case spec_reason (spec_replicate tp i) of
                           None \<Rightarrow> {} | Some s \<Rightarrow> {s})"
  using assms
  by (auto simp: replicate_step_def spec_replicate_def spec_accuracy_def spec_valid_def
      spec_reason_def split: option.splits sum.splits if_splits prod.splits)

lemma replicate_loop_spec:
  assumes "replicate_loop tp is (accs, F, ws) = Inr (accs', F', ws')"
  shows "accs' = accs @ List.map_filter (\<lambda>i. Option.bind (spec_replicate tp i) spec_accuracy) is
       \<and> {s. Some s \<in> F'} = {s. Some s \<in> F}
            \<union> set (List.map_filter (\<lambda>i. spec_reason (spec_replicate tp i)) is)"
  using assms
proof (induction "is" arbitrary: accs F ws)
  case Nil
  then show ?case by (simp add: map_filter_simps)
next
  case (Cons i "is")
  from Cons.prems obtain st where st: "replicate_step tp i (accs, F, ws) = Inr st"
    and loop: "replicate_loop tp is st = Inr (accs', F', ws')"
    by (auto split: sum.splits)
  obtain a1 F1 w1 where [simp]: "st = (a1, F1, w1)" by (cases st)
  from st have s1: "a1 = accs @ (case Option.bind (spec_replicate tp i) spec_accuracy of
                           None \<Rightarrow> [] | Some a \<Rightarrow> [a])"
    and s2: "{s. Some s \<in> F1} = {s. Some s \<in> F} \<union> (case spec_reason (spec_replicate tp i) of
                           None \<Rightarrow> {} | Some s \<Rightarrow> {s})"
    using replicate_step_spec by simp_all
  from loop have IH:
    "accs' = a1 @ List.map_filter (\<lambda>i. Option.bind (spec_replicate tp i) spec_accuracy) is
     \<and> {s. Some s \<in> F'} = {s. Some s \<in> F1}
          \<union> set (List.map_filter (\<lambda>i. spec_reason (spec_replicate tp i)) is)"
    using Cons.IH by simp
  show ?case
    unfolding conjunct1 [OF IH] conjunct2 [OF IH] s1 s2
    by (auto simp: map_filter_simps split: option.splits)
qed


subsection \<open>On the layout of the specification the aggregator returns\<close>








subsection \<open>The average\<close>



subsection \<open>The failure of a task and model, and of a task row\<close>

lemma model_loop_failures:
  assumes "model_loop tr tid mds (row, F) = Inr (row', F')"
  shows "F' = F \<union> (spec_model_failures tr tid mds - {''None''})"
  using assms
proof (induction mds arbitrary: row F)
  case Nil
  then show ?case by (simp add: spec_model_failures_def map_filter_simps)
next
  case (Cons md mds)
  from Cons.prems obtain avg failure ws where
    ptm: "process_task_model tr md tid 10 = Inr ((avg, failure), ws)"
    and rest: "model_loop tr tid mds
        (row(strip_Timing md := cell_of avg),
         if failure \<noteq> ''None'' then insert failure F else F) = Inr (row', F')"
    by (auto split: sum.splits)
  from Cons.IH [OF rest]
  have "F' = (if failure \<noteq> ''None'' then insert failure F else F)
      \<union> (spec_model_failures tr tid mds - {''None''})" .
  moreover have "spec_model_failures tr tid (md # mds)
      = insert failure (spec_model_failures tr tid mds)"
    using ptm by (simp add: spec_model_failures_def map_filter_simps)
  ultimately show ?case by auto
qed

text \<open>
  C4. When the aggregator returns for an existing task directory, its failure is
  memory-limit if the reasons of the replicates contain memory-limit, else time-limit if
  they contain time-limit, else \<open>None\<close>. The \<open>Failure\<close> cell of a processed task row follows
  the same order over the failures the aggregator returned for the models.
\<close>

theorem failure_dominance:
  "(task_path_of tr model_name task_id = Some task_path
      \<and> process_task_model tr model_name task_id n = Inr ((avg, failure), ws) \<longrightarrow>
      failure =
        (if ''memory-limit'' \<in> spec_reasons task_path n then ''memory-limit''
         else if ''time-limit'' \<in> spec_reasons task_path n then ''time-limit''
         else ''None''))
   \<and> (process_row str tr cols model_dirs (idx, row) = Inr (idx', row') \<longrightarrow>
      row' ''Failure'' =
        CStr (if ''memory-limit'' \<in> spec_model_failures tr (str (row ''task_id'')) model_dirs
              then ''memory-limit''
              else if ''time-limit'' \<in> spec_model_failures tr (str (row ''task_id'')) model_dirs
              then ''time-limit''
              else ''None''))"
proof (intro conjI impI)
  assume a: "task_path_of tr model_name task_id = Some task_path
      \<and> process_task_model tr model_name task_id n = Inr ((avg, failure), ws)"
  then obtain accs F where
    loop: "replicate_loop task_path [0 ..< n] ([], {}, []) = Inr (accs, F, ws)"
    by (auto simp: process_task_model_def Let_def split: sum.splits if_splits)
  from replicate_loop_spec [OF loop] have F: "{s. Some s \<in> F} = spec_reasons task_path n"
    by (simp add: spec_reasons_def)
  then have mem: "\<And>s. Some s \<in> F \<longleftrightarrow> s \<in> spec_reasons task_path n" by blast
  from a loop show "failure =
        (if ''memory-limit'' \<in> spec_reasons task_path n then ''memory-limit''
         else if ''time-limit'' \<in> spec_reasons task_path n then ''time-limit''
         else ''None'')"
    unfolding mem [symmetric]
    by (auto simp: process_task_model_def Let_def split: sum.splits if_splits)
next
  assume a: "process_row str tr cols model_dirs (idx, row) = Inr (idx', row')"
  then obtain r1 F where
    loop: "model_loop tr (str (row ''task_id'')) model_dirs (row, {}) = Inr (r1, F)"
    and row': "row' = r1(''Failure'' :=
                     CStr (if ''memory-limit'' \<in> F then ''memory-limit''
                           else if ''time-limit'' \<in> F then ''time-limit''
                           else ''None''))"
    by (auto simp: process_row_def split: sum.splits if_splits)
  from model_loop_failures [OF loop]
  have "F = spec_model_failures tr (str (row ''task_id'')) model_dirs - {''None''}" by simp
  with row' show "row' ''Failure'' =
        CStr (if ''memory-limit'' \<in> spec_model_failures tr (str (row ''task_id'')) model_dirs
              then ''memory-limit''
              else if ''time-limit'' \<in> spec_model_failures tr (str (row ''task_id'')) model_dirs
              then ''time-limit''
              else ''None'')"
    by simp
qed

theorem failure_dominance_witness:
  "task_path_of (Some example_results) ''DT_Timing'' ''3'' = Some example_task_3
   \<and> ''memory-limit'' \<in> spec_reasons example_task_3 2
   \<and> process_task_model (Some example_results) ''DT_Timing'' ''3'' 2
       = Inr ((Some (4 / 5), ''memory-limit''), [])
   \<and> ''memory-limit'' \<in> spec_model_failures (Some example_results) ''3'' [''DT_Timing'']
   \<and> (\<exists>row'. process_row example_str (Some example_results) [''task_id''] [''DT_Timing'']
                (0, example_row 3) = Inr (0, row')
             \<and> row' ''Failure'' = CStr ''memory-limit'')"
proof -
  have tp3: "task_path_of (Some example_results) ''DT_Timing'' ''3'' = Some example_task_3"
    by code_simp
  have res3: "process_task_model (Some example_results) ''DT_Timing'' ''3'' 2
      = Inr ((Some (4 / 5), ''memory-limit''), [])"
    by code_simp
  have m1: "''memory-limit'' \<in> spec_reasons example_task_3 2"
    by code_simp
  have tid: "example_str (example_row 3 ''task_id'') = ''3''"
    by code_simp
  have m2: "''memory-limit'' \<in> spec_model_failures (Some example_results) ''3'' [''DT_Timing'']"
    by code_simp
  have "map_sum id fst (process_row example_str (Some example_results) [''task_id'']
      [''DT_Timing''] (0, example_row 3)) = Inr 0"
    by code_simp
  then obtain row' where pr: "process_row example_str (Some example_results) [''task_id'']
      [''DT_Timing''] (0, example_row 3) = Inr (0, row')"
    by (cases "process_row example_str (Some example_results) [''task_id'']
      [''DT_Timing''] (0, example_row 3)") auto
  note t = failure_dominance [where tr = "Some example_results" and str = example_str
      and cols = "[''task_id'']" and model_dirs = "[''DT_Timing'']" and idx = 0 and idx' = 0
      and row = "example_row 3" and row' = row' and model_name = "''DT_Timing''"
      and task_id = "''3''" and task_path = example_task_3 and n = 2 and avg = "Some (4 / 5)"
      and failure = "''memory-limit''" and ws = "[]"]
  from t pr tid m2 have "row' ''Failure'' = CStr ''memory-limit''" by simp
  with tp3 m1 res3 m2 pr show ?thesis by blast
qed

text \<open>
  C5. When the task directory of a model does not exist, the aggregator returns
  \<open>(None, 'None')\<close>, and the loop over the models records \<open>None\<close> in the model's column
  without adding anything to the failures of the task.
\<close>

theorem missing_task_directory:
  "task_path_of timing_results_dir model_name task_id = None
   \<Longrightarrow> process_task_model timing_results_dir model_name task_id n = Inr ((None, ''None''), [])
     \<and> model_loop timing_results_dir task_id [model_name] (row, task_failures)
         = Inr (row(strip_Timing model_name := CNone), task_failures)"
  by (simp add: process_task_model_def cell_of_def)

theorem missing_task_directory_witness:
  "task_path_of (Some example_results) ''DT_Timing'' ''99'' = None
   \<and> process_task_model (Some example_results) ''DT_Timing'' ''99'' 10
       = Inr ((None, ''None''), [])"
proof -
  have n: "task_path_of (Some example_results) ''DT_Timing'' ''99'' = None"
    by code_simp
  from missing_task_directory [OF n, of 10] n show ?thesis by simp
qed

section \<open>Properties of the table builder\<close>

lemma aggregate_results_Some:
  "aggregate_results str df tr (Some t) = Inr out \<longleftrightarrow>
     (\<exists>mds df' kept.
        discover_models tr = Inr mds
        \<and> processed str tr mds df = Inr df'
        \<and> tasks_to_keep t mds (rows (failure_filter df')) = Inr kept
        \<and> report mds kept = Inr ()
        \<and> out = drop_column ''Failure'' ((failure_filter df')\<lparr>rows := kept\<rparr>))"
  by (auto simp: aggregate_results_def threshold_filter_def split: sum.splits)

lemma aggregate_results_None:
  "aggregate_results str df tr None = Inr out \<longleftrightarrow>
     (\<exists>mds df'.
        discover_models tr = Inr mds
        \<and> processed str tr mds df = Inr df'
        \<and> report mds (rows (failure_filter df')) = Inr ()
        \<and> out = drop_column ''Failure'' (failure_filter df'))"
  by (auto simp: aggregate_results_def threshold_filter_def split: sum.splits)

subsection \<open>The threshold filter\<close>

lemma subseq_subset: "subseq xs ys \<Longrightarrow> set xs \<subseteq> set ys"
  by (auto elim: list_emb_set)

lemma exceeds_threshold_mono:
  assumes "t1 \<le> t2"
    and "exceeds_threshold t1 row mds = Inr False"
    and "exceeds_threshold t2 row mds = Inr b"
  shows "\<not> b"
  using assms
  by (induction mds) (auto split: cell.splits if_splits)

lemma tasks_to_keep_subseq:
  "tasks_to_keep t mds irs = Inr kept \<Longrightarrow> subseq kept irs"
proof (induction irs arbitrary: kept)
  case Nil
  then show ?case by simp
next
  case (Cons ir irs)
  then show ?case
    by (auto split: sum.splits if_splits)
qed

lemma tasks_to_keep_mono:
  assumes "t1 \<le> t2"
    and "tasks_to_keep t1 mds irs = Inr k1"
    and "tasks_to_keep t2 mds irs = Inr k2"
  shows "subseq k1 k2"
  using assms(2,3)
proof (induction irs arbitrary: k1 k2)
  case Nil
  then show ?case by simp
next
  case (Cons ir irs)
  from Cons.prems obtain b1 b2 k1' k2' where
    e1: "exceeds_threshold t1 (snd ir) mds = Inr b1"
    and e2: "exceeds_threshold t2 (snd ir) mds = Inr b2"
    and r1: "tasks_to_keep t1 mds irs = Inr k1'"
    and r2: "tasks_to_keep t2 mds irs = Inr k2'"
    and k1: "k1 = (if \<not> b1 then ir # k1' else k1')"
    and k2: "k2 = (if \<not> b2 then ir # k2' else k2')"
    by (auto split: sum.splits)
  from Cons.IH [OF r1 r2] have sub: "subseq k1' k2'" .
  show ?case
  proof (cases b1)
    case True
    with k1 k2 sub show ?thesis by auto
  next
    case False
    with e1 have "exceeds_threshold t1 (snd ir) mds = Inr False" by simp
    from exceeds_threshold_mono [OF assms(1) this e2] have "\<not> b2" .
    with False k1 k2 sub show ?thesis by simp
  qed
qed

lemma report_row_threshold:
  "report_row row mds = Inr () \<Longrightarrow> \<exists>b. exceeds_threshold t row mds = Inr b"
  by (induction mds) (auto split: cell.splits)

lemma report_tasks_to_keep:
  "report mds irs = Inr () \<Longrightarrow>
     \<exists>kept. tasks_to_keep t mds irs = Inr kept \<and> report mds kept = Inr ()"
proof (induction irs)
  case Nil
  then show ?case by simp
next
  case (Cons ir irs)
  from Cons.prems have r: "report_row (snd ir) mds = Inr ()" and rest: "report mds irs = Inr ()"
    by (auto split: sum.splits)
  from report_row_threshold [OF r] obtain b where "exceeds_threshold t (snd ir) mds = Inr b"
    by blast
  moreover from Cons.IH [OF rest] obtain kept where
    "tasks_to_keep t mds irs = Inr kept" "report mds kept = Inr ()" by blast
  ultimately show ?case using r by auto
qed

lemma aggregate_threshold_returns:
  assumes "aggregate_results str df tr None = Inr out0"
  shows "\<exists>out. aggregate_results str df tr (Some t) = Inr out \<and> subseq (rows out) (rows out0)"
proof -
  from assms obtain mds df' where
    m: "discover_models tr = Inr mds" and p: "processed str tr mds df = Inr df'"
    and r: "report mds (rows (failure_filter df')) = Inr ()"
    and o: "out0 = drop_column ''Failure'' (failure_filter df')"
    by (auto simp: aggregate_results_None)
  from report_tasks_to_keep [OF r] obtain kept where
    k: "tasks_to_keep t mds (rows (failure_filter df')) = Inr kept" "report mds kept = Inr ()"
    by blast
  from k(1) have "subseq kept (rows (failure_filter df'))" by (rule tasks_to_keep_subseq)
  with m p k o show ?thesis
    by (simp add: aggregate_results_Some drop_column_def)
qed

lemma aggregate_threshold_mono:
  assumes "t1 \<le> t2"
    and "aggregate_results str df tr (Some t1) = Inr out1"
    and "aggregate_results str df tr (Some t2) = Inr out2"
  shows "subseq (rows out1) (rows out2)"
proof -
  from assms(2) obtain mds df' k1 where
    m: "discover_models tr = Inr mds" and p: "processed str tr mds df = Inr df'"
    and k1: "tasks_to_keep t1 mds (rows (failure_filter df')) = Inr k1"
    and o1: "out1 = drop_column ''Failure'' ((failure_filter df')\<lparr>rows := k1\<rparr>)"
    by (auto simp: aggregate_results_Some)
  from assms(3) m p obtain k2 where
    k2: "tasks_to_keep t2 mds (rows (failure_filter df')) = Inr k2"
    and o2: "out2 = drop_column ''Failure'' ((failure_filter df')\<lparr>rows := k2\<rparr>)"
    by (auto simp: aggregate_results_Some)
  from tasks_to_keep_mono [OF assms(1) k1 k2] have "subseq k1 k2" .
  with o1 o2 show ?thesis
    by (simp add: drop_column_def)
qed

text \<open>
  C6. For one table, one results tree and thresholds \<open>t1 \<le> t2\<close>: when both runs return,
  the rows kept with \<open>t1\<close> are among the rows kept with \<open>t2\<close> (as a set and in order);
  and when the run without threshold returns, both runs return and keep a part of its
  rows.
\<close>

theorem threshold_filter_monotone:
  assumes "t1 \<le> t2"
  shows "(aggregate_results str df tr (Some t1) = Inr out1
            \<and> aggregate_results str df tr (Some t2) = Inr out2 \<longrightarrow>
            set (rows out1) \<subseteq> set (rows out2) \<and> subseq (rows out1) (rows out2))
       \<and> (aggregate_results str df tr None = Inr out0 \<longrightarrow>
            (\<exists>o1 o2. aggregate_results str df tr (Some t1) = Inr o1
               \<and> aggregate_results str df tr (Some t2) = Inr o2
               \<and> set (rows o1) \<subseteq> set (rows o2) \<and> set (rows o2) \<subseteq> set (rows out0)))"
proof (rule conjI)
  show "aggregate_results str df tr (Some t1) = Inr out1
      \<and> aggregate_results str df tr (Some t2) = Inr out2 \<longrightarrow>
      set (rows out1) \<subseteq> set (rows out2) \<and> subseq (rows out1) (rows out2)"
  proof (rule impI)
    assume "aggregate_results str df tr (Some t1) = Inr out1
        \<and> aggregate_results str df tr (Some t2) = Inr out2"
    with assms have s: "subseq (rows out1) (rows out2)"
      using aggregate_threshold_mono by blast
    then show "set (rows out1) \<subseteq> set (rows out2) \<and> subseq (rows out1) (rows out2)"
      using subseq_subset by blast
  qed
next
  show "aggregate_results str df tr None = Inr out0 \<longrightarrow>
      (\<exists>o1 o2. aggregate_results str df tr (Some t1) = Inr o1
         \<and> aggregate_results str df tr (Some t2) = Inr o2
         \<and> set (rows o1) \<subseteq> set (rows o2) \<and> set (rows o2) \<subseteq> set (rows out0))"
  proof (rule impI)
    assume a: "aggregate_results str df tr None = Inr out0"
    from aggregate_threshold_returns [OF a, of t1] obtain o1 where
      o1: "aggregate_results str df tr (Some t1) = Inr o1" by blast
    from aggregate_threshold_returns [OF a, of t2] obtain o2 where
      o2: "aggregate_results str df tr (Some t2) = Inr o2" "subseq (rows o2) (rows out0)"
      by blast
    from aggregate_threshold_mono [OF assms o1 o2(1)] have "subseq (rows o1) (rows o2)" .
    then have s1: "set (rows o1) \<subseteq> set (rows o2)" by (rule subseq_subset)
    from o2(2) have s2: "set (rows o2) \<subseteq> set (rows out0)" by (rule subseq_subset)
    from o1 o2(1) s1 s2
    show "\<exists>o1 o2. aggregate_results str df tr (Some t1) = Inr o1
        \<and> aggregate_results str df tr (Some t2) = Inr o2
        \<and> set (rows o1) \<subseteq> set (rows o2) \<and> set (rows o2) \<subseteq> set (rows out0)"
      by (intro exI [of _ o1] exI [of _ o2] conjI)
  qed
qed

theorem threshold_filter_monotone_witness:
  "(7 / 10 :: rat) \<le> 9 / 10
   \<and> (\<exists>o1 o2.
        aggregate_results example_str example_table (Some example_results) (Some (7 / 10))
          = Inr o1
        \<and> aggregate_results example_str example_table (Some example_results) (Some (9 / 10))
          = Inr o2
        \<and> map fst (rows o1) = [1] \<and> map fst (rows o2) = [0, 1]
        \<and> set (rows o1) \<subseteq> set (rows o2))"
proof -
  have le: "(7 / 10 :: rat) \<le> 9 / 10" by simp
  have "map_sum id (\<lambda>out. map fst (rows out))
      (aggregate_results example_str example_table (Some example_results) (Some (7 / 10)))
      = Inr [1]"
    by code_simp
  then obtain o1 where o1:
    "aggregate_results example_str example_table (Some example_results) (Some (7 / 10)) = Inr o1"
    "map fst (rows o1) = [1]"
    by (cases "aggregate_results example_str example_table (Some example_results)
        (Some (7 / 10))") auto
  have "map_sum id (\<lambda>out. map fst (rows out))
      (aggregate_results example_str example_table (Some example_results) (Some (9 / 10)))
      = Inr [0, 1]"
    by code_simp
  then obtain o2 where o2:
    "aggregate_results example_str example_table (Some example_results) (Some (9 / 10)) = Inr o2"
    "map fst (rows o2) = [0, 1]"
    by (cases "aggregate_results example_str example_table (Some example_results)
        (Some (9 / 10))") auto
  from threshold_filter_monotone [OF le, of example_str example_table "Some example_results"
      o1 o2] o1(1) o2(1)
  have sub: "set (rows o1) \<subseteq> set (rows o2)" by blast
  from le o1 o2 sub show ?thesis
    by (intro conjI exI [of _ o1] exI [of _ o2])
qed

subsection \<open>The rows and columns of the output\<close>

lemma columns_set_column:
  "columns (set_column c v df) = (if c \<in> set (columns df) then columns df else columns df @ [c])"
  by (simp add: set_column_def)

lemma rows_set_column:
  "map fst (rows (set_column c v df)) = map fst (rows df)"
  by (simp add: set_column_def case_prod_unfold comp_def)

lemma columns_fold_set_column:
  "\<exists>new. columns (fold (\<lambda>name. set_column name v) names df) = columns df @ new
         \<and> distinct new \<and> set new = set names - set (columns df)
         \<and> (distinct names \<and> set names \<inter> set (columns df) = {} \<longrightarrow> new = names)"
proof (induction names arbitrary: df)
  case Nil
  then show ?case by simp
next
  case (Cons name names)
  let ?df = "set_column name v df"
  from Cons.IH [of ?df] obtain new where
    c: "columns (fold (\<lambda>name. set_column name v) names ?df) = columns ?df @ new"
    and d: "distinct new"
    and s: "set new = set names - set (columns ?df)"
    and f: "distinct names \<and> set names \<inter> set (columns ?df) = {} \<longrightarrow> new = names"
    by blast
  show ?case
  proof (cases "name \<in> set (columns df)")
    case True
    then have "columns ?df = columns df" by (simp add: columns_set_column)
    with c d s True show ?thesis
      by (intro exI [of _ new]) auto
  next
    case False
    then have cols: "columns ?df = columns df @ [name]" by (simp add: columns_set_column)
    with c d s f False show ?thesis
      by (intro exI [of _ "name # new"]) auto
  qed
qed

lemma rows_fold_set_column:
  "map fst (rows (fold (\<lambda>name. set_column name v) names df)) = map fst (rows df)"
  by (induction names arbitrary: df) (simp_all add: rows_set_column)

lemma fold_strip:
  "fold (\<lambda>model_dir. set_column (strip_Timing model_dir) v) mds df
     = fold (\<lambda>name. set_column name v) (map strip_Timing mds) df"
  by (simp add: fold_map comp_def)

lemma process_rows_index:
  "process_rows str tr cols mds irs = Inr irs' \<Longrightarrow> map fst irs' = map fst irs"
proof (induction irs arbitrary: irs')
  case Nil
  then show ?case by simp
next
  case (Cons ir irs)
  then show ?case
    by (auto simp: process_row_def split: sum.splits prod.splits if_splits)
qed

lemma processed_shape:
  assumes "processed str tr mds df = Inr df'"
  shows "columns df' = columns (init_columns mds df)"
    and "map fst (rows df') = map fst (rows df)"
proof -
  from assms obtain irs where
    irs: "process_rows str tr (columns (init_columns mds df)) mds (rows (init_columns mds df))
        = Inr irs"
    and df': "df' = (init_columns mds df)\<lparr>rows := irs\<rparr>"
    by (auto simp: processed_def Let_def split: sum.splits)
  from df' show "columns df' = columns (init_columns mds df)" by simp
  from process_rows_index [OF irs] df'
  show "map fst (rows df') = map fst (rows df)"
    by (simp add: init_columns_def rows_set_column fold_strip rows_fold_set_column)
qed

lemma columns_output:
  obtains new where
    "removeAll ''Failure'' (columns (init_columns mds df))
       = removeAll ''Failure'' (columns df) @ new"
    and "distinct new"
    and "set new = set (map strip_Timing mds) - set (columns df) - {''Failure''}"
    and "distinct (map strip_Timing mds)
           \<and> set (map strip_Timing mds) \<inter> (set (columns df) \<union> {''Failure''}) = {}
         \<longrightarrow> new = map strip_Timing mds"
proof -
  let ?names = "map strip_Timing mds"
  let ?df1 = "fold (\<lambda>name. set_column name CNone) ?names df"
  from columns_fold_set_column [of CNone ?names df] obtain new where
    c: "columns ?df1 = columns df @ new"
    and d: "distinct new"
    and s: "set new = set ?names - set (columns df)"
    and f: "distinct ?names \<and> set ?names \<inter> set (columns df) = {} \<longrightarrow> new = ?names"
    by blast
  have "removeAll ''Failure'' (columns (init_columns mds df))
      = removeAll ''Failure'' (columns ?df1)"
    by (simp add: init_columns_def fold_strip columns_set_column)
  also have "\<dots> = removeAll ''Failure'' (columns df) @ removeAll ''Failure'' new"
    by (simp add: c)
  finally have 1: "removeAll ''Failure'' (columns (init_columns mds df))
      = removeAll ''Failure'' (columns df) @ removeAll ''Failure'' new" .
  have 2: "distinct (removeAll ''Failure'' new)" using d by (simp add: distinct_removeAll)
  have 3: "set (removeAll ''Failure'' new) = set ?names - set (columns df) - {''Failure''}"
    using s by simp
  have 4: "distinct ?names \<and> set ?names \<inter> (set (columns df) \<union> {''Failure''}) = {}
      \<longrightarrow> removeAll ''Failure'' new = ?names"
  proof
    assume a: "distinct ?names \<and> set ?names \<inter> (set (columns df) \<union> {''Failure''}) = {}"
    then have "set ?names \<inter> set (columns df) = {}" by blast
    with a f have "new = ?names" by blast
    moreover from a have "''Failure'' \<notin> set ?names" by blast
    ultimately show "removeAll ''Failure'' new = ?names" by (simp add: removeAll_id)
  qed
  from 1 2 3 4 show ?thesis by (rule that)
qed

text \<open>
  C7 (as the code has it). When the aggregation of a table with N rows over M discovered
  model folders returns without threshold, the output has at most N rows, namely the
  processed rows whose \<open>Failure\<close> cell is \<open>None\<close>; it has no \<open>Failure\<close> column; and its
  columns are those of the input (other than \<open>Failure\<close>) followed by new columns: the
  distinct stripped model names that are neither a column of the input nor \<open>Failure\<close>.
  The new columns are the M model names, in order, when these are pairwise distinct, not
  columns of the input and not \<open>Failure\<close>.
\<close>

theorem aggregate_output_shape:
  assumes "discover_models tr = Inr model_dirs"
    and "aggregate_results str df tr None = Inr out"
  shows "length (rows out) \<le> length (rows df)
       \<and> (\<exists>df'. processed str tr model_dirs df = Inr df'
             \<and> map fst (rows df') = map fst (rows df)
             \<and> rows out = filter (\<lambda>(idx, row). row ''Failure'' = CStr ''None'') (rows df'))
       \<and> ''Failure'' \<notin> set (columns out)
       \<and> (\<exists>new. columns out = removeAll ''Failure'' (columns df) @ new
             \<and> distinct new
             \<and> set new = set (map strip_Timing model_dirs) - set (columns df) - {''Failure''}
             \<and> (distinct (map strip_Timing model_dirs)
                  \<and> set (map strip_Timing model_dirs) \<inter> (set (columns df) \<union> {''Failure''}) = {}
                  \<longrightarrow> new = map strip_Timing model_dirs \<and> length new = length model_dirs))"
proof -
  from assms obtain df' where
    p: "processed str tr model_dirs df = Inr df'"
    and o: "out = drop_column ''Failure'' (failure_filter df')"
    by (auto simp: aggregate_results_None)
  note sh = processed_shape [OF p]
  from o have rows: "rows out = filter (\<lambda>(idx, row). row ''Failure'' = CStr ''None'') (rows df')"
    by (simp add: drop_column_def failure_filter_def)
  have "length (rows out) \<le> length (rows df')" unfolding rows by (rule length_filter_le)
  also have "\<dots> = length (rows df)" using sh(2) by (metis length_map)
  finally have len: "length (rows out) \<le> length (rows df)" .
  from o sh(1)
  have cols: "columns out = removeAll ''Failure'' (columns (init_columns model_dirs df))"
    by (simp add: drop_column_def failure_filter_def)
  then have nof: "''Failure'' \<notin> set (columns out)" by simp
  obtain new where n1: "columns out = removeAll ''Failure'' (columns df) @ new"
    and n2: "distinct new"
    and n3: "set new = set (map strip_Timing model_dirs) - set (columns df) - {''Failure''}"
    and n4: "distinct (map strip_Timing model_dirs)
           \<and> set (map strip_Timing model_dirs) \<inter> (set (columns df) \<union> {''Failure''}) = {}
         \<longrightarrow> new = map strip_Timing model_dirs"
    using columns_output [of model_dirs df] unfolding cols [symmetric] by metis
  from n4 have n5: "distinct (map strip_Timing model_dirs)
           \<and> set (map strip_Timing model_dirs) \<inter> (set (columns df) \<union> {''Failure''}) = {}
         \<longrightarrow> new = map strip_Timing model_dirs \<and> length new = length model_dirs"
    by simp
  have A: "\<exists>df'. processed str tr model_dirs df = Inr df'
             \<and> map fst (rows df') = map fst (rows df)
             \<and> rows out = filter (\<lambda>(idx, row). row ''Failure'' = CStr ''None'') (rows df')"
    using p sh(2) rows by (intro exI [of _ df']) simp
  have B: "\<exists>new. columns out = removeAll ''Failure'' (columns df) @ new
             \<and> distinct new
             \<and> set new = set (map strip_Timing model_dirs) - set (columns df) - {''Failure''}
             \<and> (distinct (map strip_Timing model_dirs)
                  \<and> set (map strip_Timing model_dirs) \<inter> (set (columns df) \<union> {''Failure''}) = {}
                  \<longrightarrow> new = map strip_Timing model_dirs \<and> length new = length model_dirs)"
    using n1 n2 n3 n5 by (intro exI [of _ new] conjI)
  from len A nof B show ?thesis by (intro conjI)
qed

theorem aggregate_output_shape_witness:
  "discover_models (Some example_results) = Inr [''DT_Timing'']
   \<and> columns example_table = [''task_id'']
   \<and> (\<exists>out. aggregate_results example_str example_table (Some example_results) None = Inr out
         \<and> columns out = [''task_id'', ''DT'']
         \<and> map fst (rows out) = [0, 1]
         \<and> length (rows out) \<le> length (rows example_table)
         \<and> ''Failure'' \<notin> set (columns out))"
proof -
  have m: "discover_models (Some example_results) = Inr [''DT_Timing'']"
    by code_simp
  have c: "columns example_table = [''task_id'']"
    by code_simp
  have "map_sum id (\<lambda>out. (columns out, map fst (rows out)))
      (aggregate_results example_str example_table (Some example_results) None)
      = Inr ([''task_id'', ''DT''], [0, 1])"
    by code_simp
  then obtain out where o:
    "aggregate_results example_str example_table (Some example_results) None = Inr out"
    "columns out = [''task_id'', ''DT'']" "map fst (rows out) = [0, 1]"
    by (cases "aggregate_results example_str example_table (Some example_results) None") auto
  from aggregate_output_shape [OF m o(1)]
  have l: "length (rows out) \<le> length (rows example_table)"
    and f: "''Failure'' \<notin> set (columns out)"
    by blast+
  from m c o l f show ?thesis
    by (intro conjI exI [of _ out])
qed

text \<open>
  The statement of the specification fails when a model name is already a column of the
  input: a second run over the table that a first run wrote back finds one model folder
  and appends no column, the output has the two columns of its input.
\<close>

theorem aggregate_output_shape_counterexample:
  "discover_models (Some example_results) = Inr [''DT_Timing'']
   \<and> columns example_table_rerun = [''task_id'', ''DT'']
   \<and> map_sum id columns
       (aggregate_results example_str example_table_rerun (Some example_results) None)
       = Inr [''task_id'', ''DT'']"
  by code_simp

section \<open>Properties of Individual\<close>

lemma do_call_fields:
  assumes "do_call self c = Inr self'"
  shows "train_performance self' =
           (case c of Set_train f \<Rightarrow> Some f | other \<Rightarrow> train_performance self)"
    and "val_performance self' =
           (case c of Set_val f \<Rightarrow> Some f | other \<Rightarrow> val_performance self)"
    and "ei self' = (case c of Set_ei x \<Rightarrow> Some x | other \<Rightarrow> ei self)"
  using assms
  by (cases c; auto simp: set_train_performance_def set_val_performance_def set_ei_def
      split: if_splits)+

lemma run_fields:
  assumes "run self cs = Inr self'"
  shows "(train_performance self' = None) =
           (train_performance self = None \<and> (\<forall>f. Set_train f \<notin> set cs))"
    and "(val_performance self' = None) =
           (val_performance self = None \<and> (\<forall>f. Set_val f \<notin> set cs))"
    and "(ei self' = None) = (ei self = None \<and> (\<forall>x. Set_ei x \<notin> set cs))"
  using assms
proof (induction cs arbitrary: self)
  case Nil
  {
    case 1 then show ?case by simp
  next
    case 2 then show ?case by simp
  next
    case 3 then show ?case by simp
  }
next
  case (Cons c cs)
  {
    case 1
    then obtain s1 where s1: "do_call self c = Inr s1" and r: "run s1 cs = Inr self'"
      by (auto split: sum.splits)
    from Cons.IH(1) [OF r] do_call_fields(1) [OF s1] show ?case
      by (cases c) auto
  next
    case 2
    then obtain s1 where s1: "do_call self c = Inr s1" and r: "run s1 cs = Inr self'"
      by (auto split: sum.splits)
    from Cons.IH(2) [OF r] do_call_fields(2) [OF s1] show ?case
      by (cases c) auto
  next
    case 3
    then obtain s1 where s1: "do_call self c = Inr s1" and r: "run s1 cs = Inr self'"
      by (auto split: sum.splits)
    from Cons.IH(3) [OF r] do_call_fields(3) [OF s1] show ?case
      by (cases c) auto
  }
qed

lemma run_Individual:
  assumes "run (Individual ps mt) cs = Inr self"
  shows "(train_performance self = None) = (\<forall>f. Set_train f \<notin> set cs)"
    and "(val_performance self = None) = (\<forall>f. Set_val f \<notin> set cs)"
    and "(ei self = None) = (\<forall>x. Set_ei x \<notin> set cs)"
  using run_fields [OF assms] by (simp_all add: Individual_def)

text \<open>
  C9. A setter that has succeeded raises an assertion error when called again, and the
  getter then returns the value set. After any history of successful setter calls on a
  new \<open>Individual\<close>, the getter of a field raises an assertion error if the history has
  no call of its setter, and the setter raises one if the history has such a call.
  \<open>get_params\<close> returns a new mapping with the items of the stored one: its address is
  not the stored address, and no update of the mapping at the returned address changes
  the stored mapping.
\<close>

theorem individual_write_once:
  "(set_train_performance self f = Inr self' \<longrightarrow>
      set_train_performance self' g = Inl AssertionError \<and> get_train_performance self' = Inr f)
   \<and> (set_val_performance self f = Inr self' \<longrightarrow>
      set_val_performance self' g = Inl AssertionError \<and> get_val_performance self' = Inr f)
   \<and> (set_ei self f = Inr self' \<longrightarrow>
      set_ei self' g = Inl AssertionError \<and> get_ei self' = Inr f)
   \<and> (run (Individual ps mt) cs = Inr self \<longrightarrow>
        (get_train_performance self = Inl AssertionError) = (\<forall>x. Set_train x \<notin> set cs)
        \<and> (set_train_performance self g = Inl AssertionError) = (\<exists>x. Set_train x \<in> set cs)
        \<and> (get_val_performance self = Inl AssertionError) = (\<forall>x. Set_val x \<notin> set cs)
        \<and> (set_val_performance self g = Inl AssertionError) = (\<exists>x. Set_val x \<in> set cs)
        \<and> (get_ei self = Inl AssertionError) = (\<forall>x. Set_ei x \<notin> set cs)
        \<and> (set_ei self g = Inl AssertionError) = (\<exists>x. Set_ei x \<in> set cs))
   \<and> (params self < length st \<longrightarrow>
        (case get_params st self of
           (st', copy) \<Rightarrow>
             copy \<noteq> params self
             \<and> st' ! copy = st ! params self
             \<and> st' ! params self = st ! params self
             \<and> (\<forall>d. st'[copy := d] ! params self = st ! params self)))"
proof (intro conjI)
  show "set_train_performance self f = Inr self' \<longrightarrow>
      set_train_performance self' g = Inl AssertionError \<and> get_train_performance self' = Inr f"
    by (auto simp: set_train_performance_def get_train_performance_def split: if_splits)
  show "set_val_performance self f = Inr self' \<longrightarrow>
      set_val_performance self' g = Inl AssertionError \<and> get_val_performance self' = Inr f"
    by (auto simp: set_val_performance_def get_val_performance_def split: if_splits)
  show "set_ei self f = Inr self' \<longrightarrow>
      set_ei self' g = Inl AssertionError \<and> get_ei self' = Inr f"
    by (auto simp: set_ei_def get_ei_def split: if_splits)
  show "run (Individual ps mt) cs = Inr self \<longrightarrow>
        (get_train_performance self = Inl AssertionError) = (\<forall>x. Set_train x \<notin> set cs)
        \<and> (set_train_performance self g = Inl AssertionError) = (\<exists>x. Set_train x \<in> set cs)
        \<and> (get_val_performance self = Inl AssertionError) = (\<forall>x. Set_val x \<notin> set cs)
        \<and> (set_val_performance self g = Inl AssertionError) = (\<exists>x. Set_val x \<in> set cs)
        \<and> (get_ei self = Inl AssertionError) = (\<forall>x. Set_ei x \<notin> set cs)
        \<and> (set_ei self g = Inl AssertionError) = (\<exists>x. Set_ei x \<in> set cs)"
  proof (rule impI)
    assume r: "run (Individual ps mt) cs = Inr self"
    note h = run_Individual [OF r]
    have "(get_train_performance self = Inl AssertionError) = (train_performance self = None)"
      "(set_train_performance self g = Inl AssertionError) = (train_performance self \<noteq> None)"
      "(get_val_performance self = Inl AssertionError) = (val_performance self = None)"
      "(set_val_performance self g = Inl AssertionError) = (val_performance self \<noteq> None)"
      "(get_ei self = Inl AssertionError) = (ei self = None)"
      "(set_ei self g = Inl AssertionError) = (ei self \<noteq> None)"
      by (auto simp: get_train_performance_def set_train_performance_def
          get_val_performance_def set_val_performance_def get_ei_def set_ei_def
          split: option.splits)
    with h show "(get_train_performance self = Inl AssertionError) = (\<forall>x. Set_train x \<notin> set cs)
        \<and> (set_train_performance self g = Inl AssertionError) = (\<exists>x. Set_train x \<in> set cs)
        \<and> (get_val_performance self = Inl AssertionError) = (\<forall>x. Set_val x \<notin> set cs)
        \<and> (set_val_performance self g = Inl AssertionError) = (\<exists>x. Set_val x \<in> set cs)
        \<and> (get_ei self = Inl AssertionError) = (\<forall>x. Set_ei x \<notin> set cs)
        \<and> (set_ei self g = Inl AssertionError) = (\<exists>x. Set_ei x \<in> set cs)"
      by simp
  qed
  show "params self < length st \<longrightarrow>
        (case get_params st self of
           (st', copy) \<Rightarrow>
             copy \<noteq> params self
             \<and> st' ! copy = st ! params self
             \<and> st' ! params self = st ! params self
             \<and> (\<forall>d. st'[copy := d] ! params self = st ! params self))"
    by (auto simp: get_params_def deepcopy_def nth_append)
qed

theorem individual_write_once_witness:
  "set_train_performance (Individual 0 ''DT'') (1 / 2)
     = Inr ((Individual 0 ''DT'')\<lparr>train_performance := Some (1 / 2)\<rparr>)
   \<and> set_train_performance ((Individual 0 ''DT'')\<lparr>train_performance := Some (1 / 2)\<rparr>) (3 / 4)
     = Inl AssertionError
   \<and> run (Individual 0 ''DT'') [Set_val (1 / 2), Set_ei (1 / 4)]
     = Inr ((Individual 0 ''DT'')\<lparr>val_performance := Some (1 / 2), ei := Some (1 / 4)\<rparr>)
   \<and> get_train_performance
       ((Individual 0 ''DT'')\<lparr>val_performance := Some (1 / 2), ei := Some (1 / 4)\<rparr>)
     = Inl AssertionError
   \<and> set_val_performance
       ((Individual 0 ''DT'')\<lparr>val_performance := Some (1 / 2), ei := Some (1 / 4)\<rparr>) (3 / 4)
     = Inl AssertionError
   \<and> params (Individual 0 ''DT'') < length [[''max_depth'' \<mapsto> (3::int)]]
   \<and> snd (get_params [[''max_depth'' \<mapsto> (3::int)]] (Individual 0 ''DT'')) = 1
   \<and> fst (get_params [[''max_depth'' \<mapsto> (3::int)]] (Individual 0 ''DT'')) ! 1
       = [''max_depth'' \<mapsto> 3]
   \<and> (fst (get_params [[''max_depth'' \<mapsto> (3::int)]] (Individual 0 ''DT'')))
         [1 := [''max_depth'' \<mapsto> 9]] ! 0
       = [''max_depth'' \<mapsto> 3]"
proof -
  let ?i = "Individual 0 ''DT''"
  let ?j = "?i\<lparr>train_performance := Some (1 / 2)\<rparr>"
  let ?k = "?i\<lparr>val_performance := Some (1 / 2), ei := Some (1 / 4)\<rparr>"
  let ?cs = "[Set_val (1 / 2), Set_ei (1 / 4)]"
  let ?st = "[[''max_depth'' \<mapsto> (3::int)]]"
  have s: "set_train_performance ?i (1 / 2) = Inr ?j"
    by (simp add: set_train_performance_def Individual_def)
  have r: "run ?i ?cs = Inr ?k"
    by (simp add: set_val_performance_def set_ei_def Individual_def)
  have p: "params ?i < length ?st" by (simp add: Individual_def)
  have p0: "params ?i = 0" by (simp add: Individual_def)
  note t = individual_write_once [where self = ?i and self' = ?j and f = "1 / 2"
      and g = "3 / 4" and st = ?st]
  note u = individual_write_once [where self = ?k and cs = ?cs and ps = 0 and mt = "''DT''"
      and g = "3 / 4"]
  obtain st' c where g: "get_params ?st ?i = (st', c)" by (cases "get_params ?st ?i")
  have c: "c = 1" using g by (simp add: get_params_def deepcopy_def)
  from t s have 1: "set_train_performance ?j (3 / 4) = Inl AssertionError" by blast
  have nt: "\<forall>x. Set_train x \<notin> set ?cs" by simp
  have sv: "\<exists>x. Set_val x \<in> set ?cs" by (rule exI [of _ "1 / 2"]) simp
  from u r nt have 2: "get_train_performance ?k = Inl AssertionError" by blast
  from u r sv have 3: "set_val_performance ?k (3 / 4) = Inl AssertionError" by blast
  from t p g have 4: "st' ! c = ?st ! params ?i"
    and 5: "\<forall>d. st'[c := d] ! params ?i = ?st ! params ?i"
    by simp_all
  from 5 have 6: "st'[c := [''max_depth'' \<mapsto> 9]] ! params ?i = ?st ! params ?i" by blast
  from s 1 r 2 3 p g c 4 6 p0 show ?thesis by simp
qed

end
